theory Spec2Isabelle
  imports Main "HOL-Library.Sublist"
begin

section \<open>Python values, exceptions and strings\<close>

text \<open>
  The values that cross the interfaces of the two modules: what a caller hands to a
  pydantic pre-validator, what a query parameter holds and what the graph store returns
  in a column. Strings are ASCII text.
\<close>

datatype pyval = PyNone | PyBool bool | PyInt int | PyStr string

text \<open>
  Exceptions, each carrying the text that \<^verbatim>\<open>str(e)\<close> gives, except \<open>KeyError\<close>, which
  carries the missing key. \<open>DriverError\<close> stands for every other exception class of the
  graph-store client (a Cypher syntax error, a rejected write, ...).
\<close>

datatype exn =
    ServiceUnavailable string
  | AuthError string
  | ValueError string
  | TypeError string
  | KeyError string
  | AttributeError string
  | DriverError string

fun exn_str :: "exn \<Rightarrow> string" where
  "exn_str (ServiceUnavailable m) = m"
| "exn_str (AuthError m) = m"
| "exn_str (ValueError m) = m"
| "exn_str (TypeError m) = m"
| "exn_str (KeyError k) = [CHR 0x27] @ k @ [CHR 0x27]"
| "exn_str (AttributeError m) = m"
| "exn_str (DriverError m) = m"

text \<open>Python's \<^verbatim>\<open>==\<close> on these values: \<^verbatim>\<open>bool\<close> is a subclass of \<^verbatim>\<open>int\<close>, so \<^verbatim>\<open>True == 1\<close>.\<close>

fun py_eq :: "pyval \<Rightarrow> pyval \<Rightarrow> bool" where
  "py_eq (PyBool a) (PyInt n) = ((if a then 1 else 0) = n)"
| "py_eq (PyInt n) (PyBool a) = (n = (if a then 1 else 0))"
| "py_eq x y = (x = y)"

text \<open>\<^verbatim>\<open>str.lower()\<close> on ASCII text: \<^verbatim>\<open>A\<close>..\<^verbatim>\<open>Z\<close> get bit 5 set, every other character stays.\<close>

definition lower_char :: "char \<Rightarrow> char" where
  "lower_char c =
     (if 65 \<le> (of_char c :: nat) \<and> (of_char c :: nat) \<le> 90
      then Char (digit0 c) (digit1 c) (digit2 c) (digit3 c) (digit4 c) True (digit6 c) (digit7 c)
      else c)"

definition lower :: "string \<Rightarrow> string" where
  "lower s = map lower_char s"

text \<open>
  \<^verbatim>\<open>repr\<close> of a string without quotes, backslashes or control characters (all the
  configured strings are such), and of a list of them, as an f-string prints a list.
\<close>

definition repr_str :: "string \<Rightarrow> string" where
  "repr_str s = [CHR 0x27] @ s @ [CHR 0x27]"

fun join :: "string \<Rightarrow> string list \<Rightarrow> string" where
  "join sep [] = []"
| "join sep [x] = x"
| "join sep (x # y # ys) = x @ sep @ join sep (y # ys)"

definition repr_list :: "string list \<Rightarrow> string" where
  "repr_list xs = ''['' @ join '', '' (map repr_str xs) @ '']''"

section \<open>config.py\<close>

text \<open>
  \<^verbatim>\<open>os.getenv(name, default)\<close> over the process environment, and the four connection
  settings read through it.
\<close>

definition getenv :: "(string \<rightharpoonup> string) \<Rightarrow> string \<Rightarrow> string \<Rightarrow> string" where
  "getenv environ k dflt = (case environ k of None \<Rightarrow> dflt | Some v \<Rightarrow> v)"

definition NEO4J_URI :: "(string \<rightharpoonup> string) \<Rightarrow> string" where
  "NEO4J_URI environ = getenv environ ''NEO4J_URI'' ''bolt://localhost:7687''"

definition NEO4J_USER :: "(string \<rightharpoonup> string) \<Rightarrow> string" where
  "NEO4J_USER environ = getenv environ ''NEO4J_USER'' ''neo4j''"

definition NEO4J_PASSWORD :: "(string \<rightharpoonup> string) \<Rightarrow> string" where
  "NEO4J_PASSWORD environ = getenv environ ''NEO4J_PASSWORD'' ''password''"

definition NEO4J_DATABASE :: "(string \<rightharpoonup> string) \<Rightarrow> string" where
  "NEO4J_DATABASE environ = getenv environ ''NEO4J_DATABASE'' ''neo4j''"

definition RULE_CATEGORIES :: "string list" where
  "RULE_CATEGORIES =
     [''data'', ''validation'', ''calculation'', ''process'', ''reporting'', ''compliance'']"

definition OBLIGATION_LEVELS :: "string list" where
  "OBLIGATION_LEVELS = [''mandatory'', ''conditional'', ''optional'']"

section \<open>models.py: the enumeration validators\<close>

text \<open>
  Each validator is a pydantic pre-validator: it receives the raw input. A string is
  checked against the configured list, both sides lowered, and the first configured member
  that matches is returned; the loop cannot fall through after the membership test, but the
  source's final \<^verbatim>\<open>return v\<close> is kept. A value that is not a string is returned as it is.
\<close>

definition RuleBase_validate_category :: "pyval \<Rightarrow> exn + pyval" where
  "RuleBase_validate_category v =
     (case v of
        PyStr s \<Rightarrow>
          if lower s \<notin> set (map lower RULE_CATEGORIES)
          then Inl (ValueError (''Invalid category: '' @ s @ ''. Must be one of ''
                                @ repr_list RULE_CATEGORIES))
          else (case find (\<lambda>cat. lower s = lower cat) RULE_CATEGORIES of
                  Some cat \<Rightarrow> Inr (PyStr cat)
                | None \<Rightarrow> Inr v)
      | _ \<Rightarrow> Inr v)"

definition RuleBase_validate_obligation_level :: "pyval \<Rightarrow> exn + pyval" where
  "RuleBase_validate_obligation_level v =
     (case v of
        PyStr s \<Rightarrow>
          if lower s \<notin> set (map lower OBLIGATION_LEVELS)
          then Inl (ValueError (''Invalid obligation level: '' @ s @ ''. Must be one of ''
                                @ repr_list OBLIGATION_LEVELS))
          else (case find (\<lambda>level. lower s = lower level) OBLIGATION_LEVELS of
                  Some level \<Rightarrow> Inr (PyStr level)
                | None \<Rightarrow> Inr v)
      | _ \<Rightarrow> Inr v)"

text \<open>The validators of \<^verbatim>\<open>RuleUpdate\<close> return \<^verbatim>\<open>None\<close> first, then do the same.\<close>

definition RuleUpdate_validate_category :: "pyval \<Rightarrow> exn + pyval" where
  "RuleUpdate_validate_category v =
     (if v = PyNone then Inr v
      else case v of
        PyStr s \<Rightarrow>
          if lower s \<notin> set (map lower RULE_CATEGORIES)
          then Inl (ValueError (''Invalid category: '' @ s @ ''. Must be one of ''
                                @ repr_list RULE_CATEGORIES))
          else (case find (\<lambda>cat. lower s = lower cat) RULE_CATEGORIES of
                  Some cat \<Rightarrow> Inr (PyStr cat)
                | None \<Rightarrow> Inr v)
      | _ \<Rightarrow> Inr v)"

definition RuleUpdate_validate_obligation_level :: "pyval \<Rightarrow> exn + pyval" where
  "RuleUpdate_validate_obligation_level v =
     (if v = PyNone then Inr v
      else case v of
        PyStr s \<Rightarrow>
          if lower s \<notin> set (map lower OBLIGATION_LEVELS)
          then Inl (ValueError (''Invalid obligation level: '' @ s @ ''. Must be one of ''
                                @ repr_list OBLIGATION_LEVELS))
          else (case find (\<lambda>level. lower s = lower level) OBLIGATION_LEVELS of
                  Some level \<Rightarrow> Inr (PyStr level)
                | None \<Rightarrow> Inr v)
      | _ \<Rightarrow> Inr v)"

section \<open>models.py: the records\<close>

datatype RuleCategory = DATA | VALIDATION | CALCULATION | PROCESS | REPORTING | COMPLIANCE

fun RuleCategory_value :: "RuleCategory \<Rightarrow> string" where
  "RuleCategory_value DATA = ''data''"
| "RuleCategory_value VALIDATION = ''validation''"
| "RuleCategory_value CALCULATION = ''calculation''"
| "RuleCategory_value PROCESS = ''process''"
| "RuleCategory_value REPORTING = ''reporting''"
| "RuleCategory_value COMPLIANCE = ''compliance''"

datatype ObligationLevel = MANDATORY | CONDITIONAL | OPTIONAL

fun ObligationLevel_value :: "ObligationLevel \<Rightarrow> string" where
  "ObligationLevel_value MANDATORY = ''mandatory''"
| "ObligationLevel_value CONDITIONAL = ''conditional''"
| "ObligationLevel_value OPTIONAL = ''optional''"

datatype date = Date int int int

record RuleBase =
  name :: string
  description :: string
  category :: RuleCategory
  obligation_level :: ObligationLevel
  data_elements :: "string list"
  conditions :: "string list"
  actions :: "string list"
  exceptions :: "string list"
  thresholds :: "string list"
  validation_logic :: "string option"
  source_reference :: "string option"
  effective_date :: "date option"
  related_rules :: "string list"

record Rule = RuleBase +
  rule_id :: string
  created_at :: "date option"
  updated_at :: "date option"

text \<open>\<^verbatim>\<open>RuleUpdate\<close>: the thirteen fields of \<^verbatim>\<open>RuleBase\<close>, each optional with default \<^verbatim>\<open>None\<close>.\<close>

record RuleUpdate =
  upd_name :: "string option"
  upd_description :: "string option"
  upd_category :: "RuleCategory option"
  upd_obligation_level :: "ObligationLevel option"
  upd_data_elements :: "string list option"
  upd_conditions :: "string list option"
  upd_actions :: "string list option"
  upd_exceptions :: "string list option"
  upd_thresholds :: "string list option"
  upd_validation_logic :: "string option"
  upd_source_reference :: "string option"
  upd_effective_date :: "date option"
  upd_related_rules :: "string list option"

text \<open>\<^verbatim>\<open>RuleUpdate()\<close>: every field at its default.\<close>

definition RuleUpdate_defaults :: RuleUpdate where
  "RuleUpdate_defaults =
     \<lparr> upd_name = None, upd_description = None, upd_category = None,
       upd_obligation_level = None, upd_data_elements = None, upd_conditions = None,
       upd_actions = None, upd_exceptions = None, upd_thresholds = None,
       upd_validation_logic = None, upd_source_reference = None, upd_effective_date = None,
       upd_related_rules = None \<rparr>"

text \<open>The example of \<^verbatim>\<open>Rule.Config.schema_extra\<close>.\<close>

definition Rule_example :: Rule where
  "Rule_example =
     \<lparr> name = ''Income Validation'',
       description = ''Customer income must be greater than zero and verified with supporting documentation'',
       category = VALIDATION,
       obligation_level = MANDATORY,
       data_elements = [''customer_income''],
       conditions = [''customer_application_submitted = true''],
       actions = [''validate_income_documentation'', ''flag_if_income_zero_or_negative''],
       exceptions = [''customer_type = '' @ [CHR 0x27] @ ''student_loan'' @ [CHR 0x27]],
       thresholds = [],
       validation_logic = Some ''customer_income > 0'',
       source_reference = Some ''Lending Policy v2.1, Section 3.4.2'',
       effective_date = Some (Date 2025 1 1),
       related_rules = [],
       rule_id = ''R001'',
       created_at = Some (Date 2025 3 23),
       updated_at = Some (Date 2025 3 23) \<rparr>"

text \<open>
  Modelled from the spec: the repository operation that applies a partial-update record to
  a stored Rule is not among the source files. The spec says of it: a Rule is "mutated in
  place by an update operation that accepts a partial record (only present fields
  overwrite)", and "absent fields are left untouched in storage and must not be
  misinterpreted as 'clear this field'".
\<close>

definition apply_update :: "RuleUpdate \<Rightarrow> Rule \<Rightarrow> Rule" where
  "apply_update u r =
     r\<lparr> name := (case upd_name u of None \<Rightarrow> name r | Some v \<Rightarrow> v),
        description := (case upd_description u of None \<Rightarrow> description r | Some v \<Rightarrow> v),
        category := (case upd_category u of None \<Rightarrow> category r | Some v \<Rightarrow> v),
        obligation_level :=
          (case upd_obligation_level u of None \<Rightarrow> obligation_level r | Some v \<Rightarrow> v),
        data_elements :=
          (case upd_data_elements u of None \<Rightarrow> data_elements r | Some v \<Rightarrow> v),
        conditions := (case upd_conditions u of None \<Rightarrow> conditions r | Some v \<Rightarrow> v),
        actions := (case upd_actions u of None \<Rightarrow> actions r | Some v \<Rightarrow> v),
        exceptions := (case upd_exceptions u of None \<Rightarrow> exceptions r | Some v \<Rightarrow> v),
        thresholds := (case upd_thresholds u of None \<Rightarrow> thresholds r | Some v \<Rightarrow> v),
        validation_logic :=
          (case upd_validation_logic u of None \<Rightarrow> validation_logic r | Some v \<Rightarrow> Some v),
        source_reference :=
          (case upd_source_reference u of None \<Rightarrow> source_reference r | Some v \<Rightarrow> Some v),
        effective_date :=
          (case upd_effective_date u of None \<Rightarrow> effective_date r | Some v \<Rightarrow> Some v),
        related_rules :=
          (case upd_related_rules u of None \<Rightarrow> related_rules r | Some v \<Rightarrow> v) \<rparr>"

section \<open>The graph store and its client library\<close>

text \<open>
  The neo4j client and the server behind it are outside the repository, so they are a
  parameter. An environment says whether \<^verbatim>\<open>GraphDatabase.driver\<close> raises for an endpoint
  and credentials, and how the store, in a state of type \<open>'s\<close>, answers a statement: with an
  exception or with the rows of the result, and with its next state.
\<close>

type_synonym params = "(string \<times> pyval) list"

text \<open>A \<^verbatim>\<open>Record\<close>: the columns of a row in order, each a key and a value.\<close>

type_synonym row = "(string \<times> pyval) list"

record 's env =
  new_driver :: "string \<Rightarrow> string \<Rightarrow> string \<Rightarrow> exn option"
  run_query :: "'s \<Rightarrow> string \<Rightarrow> params \<Rightarrow> (exn + row list) \<times> 's"

datatype log_entry = LogInfo string | LogError string

text \<open>
  The world the Connection Manager acts on: the store, every driver created so far (a
  driver's handle is its position) and those closed, every session opened so far (its
  driver and logical database; the handle is the position), the sessions now open and those
  closed, the statements sent to the store in order, and the log.
\<close>

record 's world =
  store :: 's
  drivers :: "(string \<times> string \<times> string) list"
  closed_drivers :: "nat list"
  sessions :: "(nat \<times> string) list"
  open_sessions :: "nat list"
  closed_sessions :: "nat list"
  history :: "(string \<times> params) list"
  logged :: "log_entry list"

text \<open>A \<^verbatim>\<open>Result\<close> handle: the session it belongs to and the rows the store answered with.\<close>

record Result =
  res_session :: nat
  res_rows :: "row list"

definition logger_info :: "string \<Rightarrow> 's world \<Rightarrow> 's world" where
  "logger_info m w = w\<lparr>logged := logged w @ [LogInfo m]\<rparr>"

definition logger_error :: "string \<Rightarrow> 's world \<Rightarrow> 's world" where
  "logger_error m w = w\<lparr>logged := logged w @ [LogError m]\<rparr>"

definition GraphDatabase_driver ::
  "'s env \<Rightarrow> string \<Rightarrow> string \<Rightarrow> string \<Rightarrow> 's world \<Rightarrow> (exn + nat) \<times> 's world" where
  "GraphDatabase_driver E u usr pw w =
     (case new_driver E u usr pw of
        Some e \<Rightarrow> (Inl e, w)
      | None \<Rightarrow> (Inr (length (drivers w)), w\<lparr>drivers := drivers w @ [(u, usr, pw)]\<rparr>))"

definition driver_close :: "nat \<Rightarrow> 's world \<Rightarrow> 's world" where
  "driver_close d w = w\<lparr>closed_drivers := List.insert d (closed_drivers w)\<rparr>"

definition driver_session :: "nat \<Rightarrow> string \<Rightarrow> 's world \<Rightarrow> nat \<times> 's world" where
  "driver_session d db w =
     (length (sessions w),
      w\<lparr>sessions := sessions w @ [(d, db)],
        open_sessions := length (sessions w) # open_sessions w\<rparr>)"

definition session_close :: "nat \<Rightarrow> 's world \<Rightarrow> 's world" where
  "session_close s w =
     w\<lparr>open_sessions := removeAll s (open_sessions w),
       closed_sessions := List.insert s (closed_sessions w)\<rparr>"

definition session_run ::
  "'s env \<Rightarrow> nat \<Rightarrow> string \<Rightarrow> params \<Rightarrow> 's world \<Rightarrow> (exn + Result) \<times> 's world" where
  "session_run E s q p w =
     (case run_query E (store w) q p of
        (resp, st) \<Rightarrow>
          (case resp of
             Inl e \<Rightarrow> Inl e
           | Inr rows \<Rightarrow> Inr \<lparr>res_session = s, res_rows = rows\<rparr>,
           w\<lparr>store := st, history := history w @ [(q, p)]\<rparr>))"

text \<open>
  \<^verbatim>\<open>Result.single()\<close> in its default, non-strict mode: \<^verbatim>\<open>None\<close> without a row, else the first
  row (more than one row only warns).
\<close>

definition single :: "Result \<Rightarrow> row option" where
  "single r = (case res_rows r of [] \<Rightarrow> None | x # _ \<Rightarrow> Some x)"

text \<open>\<^verbatim>\<open>record[key]\<close>: the value of the first column of that name, \<^verbatim>\<open>KeyError\<close> without one.\<close>

definition record_get :: "row \<Rightarrow> string \<Rightarrow> exn + pyval" where
  "record_get r k = (case map_of r k of None \<Rightarrow> Inl (KeyError k) | Some v \<Rightarrow> Inr v)"

text \<open>\<^verbatim>\<open>record.data()\<close>: the dictionary of the columns; of two columns of one name the later wins.\<close>

definition record_data :: "row \<Rightarrow> (string \<rightharpoonup> pyval)" where
  "record_data r = map_of (rev r)"

text \<open>The truth value of a \<^verbatim>\<open>Record\<close>, a tuple: false exactly when it has no column.\<close>

definition record_truthy :: "row \<Rightarrow> bool" where
  "record_truthy r = (r \<noteq> [])"

section \<open>db.py: the Connection Manager\<close>

text \<open>
  The module creates one manager, \<^verbatim>\<open>db\<close>, and \<^verbatim>\<open>__new__\<close> hands that same object to
  every later construction. Here the one manager is a value passed from call to call:
  its four settings and the driver it holds, if any.
\<close>

record Neo4jDatabase =
  uri :: string
  user :: string
  password :: string
  database :: string
  priv_driver :: "nat option"

text \<open>\<^verbatim>\<open>__init__\<close> on the first construction: the settings of config.py and no driver.\<close>

definition init :: "(string \<rightharpoonup> string) \<Rightarrow> Neo4jDatabase" where
  "init environ =
     \<lparr> uri = NEO4J_URI environ, user = NEO4J_USER environ,
       password = NEO4J_PASSWORD environ, database = NEO4J_DATABASE environ,
       priv_driver = None \<rparr>"

text \<open>
  The \<^verbatim>\<open>with\<close> block of \<^verbatim>\<open>connect\<close>: a session on the new driver, the probe statement, the
  comparison with 1. Leaving the block closes the session, on every path.
\<close>

definition connection_test ::
  "'s env \<Rightarrow> Neo4jDatabase \<Rightarrow> nat \<Rightarrow> 's world \<Rightarrow> (exn + unit) \<times> 's world" where
  "connection_test E self d w =
     (case driver_session d (database self) w of
        (s, w1) \<Rightarrow>
          (case session_run E s ''RETURN 1 AS test'' [] w1 of
             (Inl e, w2) \<Rightarrow> (Inl e, session_close s w2)
           | (Inr result, w2) \<Rightarrow>
               (case single result of
                  None \<Rightarrow>
                    (Inl (TypeError ([CHR 0x27] @ ''NoneType'' @ [CHR 0x27]
                                    @ '' object is not subscriptable'')),
                     session_close s w2)
                | Some rec \<Rightarrow>
                    (case record_get rec ''test'' of
                       Inl e \<Rightarrow> (Inl e, session_close s w2)
                     | Inr test_value \<Rightarrow>
                         if \<not> py_eq test_value (PyInt 1)
                         then (Inl (ServiceUnavailable ''Database connection test failed''),
                               session_close s w2)
                         else (Inr (),
                               session_close s
                                 (logger_info (''Connected to Neo4j at '' @ uri self) w2))))))"

text \<open>The \<^verbatim>\<open>try\<close> block of \<^verbatim>\<open>connect\<close>: the driver is stored before it is tested.\<close>

definition connect_try ::
  "'s env \<Rightarrow> Neo4jDatabase \<Rightarrow> 's world \<Rightarrow> (exn + nat) \<times> Neo4jDatabase \<times> 's world" where
  "connect_try E self w =
     (case priv_driver self of
        Some d \<Rightarrow> (Inr d, self, w)
      | None \<Rightarrow>
          (case GraphDatabase_driver E (uri self) (user self) (password self) w of
             (Inl e, w1) \<Rightarrow> (Inl e, self, w1)
           | (Inr d, w1) \<Rightarrow>
               (case connection_test E (self\<lparr>priv_driver := Some d\<rparr>) d w1 of
                  (Inl e, w2) \<Rightarrow> (Inl e, self\<lparr>priv_driver := Some d\<rparr>, w2)
                | (Inr u, w2) \<Rightarrow> (Inr d, self\<lparr>priv_driver := Some d\<rparr>, w2))))"

text \<open>The exception classes of the \<^verbatim>\<open>except\<close> clause of \<^verbatim>\<open>connect\<close>.\<close>

fun connect_handles :: "exn \<Rightarrow> bool" where
  "connect_handles (ServiceUnavailable m) = True"
| "connect_handles (AuthError m) = True"
| "connect_handles e = False"

definition connect ::
  "'s env \<Rightarrow> Neo4jDatabase \<Rightarrow> 's world \<Rightarrow> (exn + nat) \<times> Neo4jDatabase \<times> 's world" where
  "connect E self w =
     (case connect_try E self w of
        (Inl e, self1, w1) \<Rightarrow>
          if connect_handles e
          then (Inl e, self1, logger_error (''Failed to connect to Neo4j: '' @ exn_str e) w1)
          else (Inl e, self1, w1)
      | (Inr d, self1, w1) \<Rightarrow> (Inr d, self1, w1))"

definition close :: "Neo4jDatabase \<Rightarrow> 's world \<Rightarrow> Neo4jDatabase \<times> 's world" where
  "close self w =
     (case priv_driver self of
        None \<Rightarrow> (self, w)
      | Some d \<Rightarrow>
          (self\<lparr>priv_driver := None\<rparr>,
           logger_info ''Closed Neo4j connection'' (driver_close d w)))"

text \<open>
  \<^verbatim>\<open>get_session\<close> is a context manager: the block under \<^verbatim>\<open>with\<close> is the argument \<open>body\<close>,
  which receives the session and may act on the manager and the world; it ends with a value
  or with an exception. The \<^verbatim>\<open>finally\<close> clause closes the session after either.
\<close>

definition get_session ::
  "'s env \<Rightarrow> Neo4jDatabase \<Rightarrow>
   (nat \<Rightarrow> Neo4jDatabase \<Rightarrow> 's world \<Rightarrow> (exn + 'a) \<times> Neo4jDatabase \<times> 's world) \<Rightarrow>
   's world \<Rightarrow> (exn + 'a) \<times> Neo4jDatabase \<times> 's world" where
  "get_session E self body w =
     (case connect E self w of
        (Inl e, self1, w1) \<Rightarrow> (Inl e, self1, w1)
      | (Inr driver, self1, w1) \<Rightarrow>
          (case driver_session driver (database self1) w1 of
             (session, w2) \<Rightarrow>
               (case body session self1 w2 of
                  (r, self3, w3) \<Rightarrow> (r, self3, session_close session w3))))"

text \<open>\<^verbatim>\<open>params or {}\<close>.\<close>

definition params_or_empty :: "params option \<Rightarrow> params" where
  "params_or_empty params = (case params of None \<Rightarrow> [] | Some p \<Rightarrow> p)"

definition execute_query_body ::
  "'s env \<Rightarrow> string \<Rightarrow> params option \<Rightarrow> nat \<Rightarrow> Neo4jDatabase \<Rightarrow> 's world \<Rightarrow>
   (exn + Result) \<times> Neo4jDatabase \<times> 's world" where
  "execute_query_body E query params session self w =
     (case session_run E session query (params_or_empty params) w of
        (r, w1) \<Rightarrow> (r, self, w1))"

definition execute_query ::
  "'s env \<Rightarrow> Neo4jDatabase \<Rightarrow> string \<Rightarrow> params option \<Rightarrow> 's world \<Rightarrow>
   (exn + Result) \<times> Neo4jDatabase \<times> 's world" where
  "execute_query E self query params w =
     get_session E self (execute_query_body E query params) w"

definition fetch_all_body ::
  "'s env \<Rightarrow> string \<Rightarrow> params option \<Rightarrow> nat \<Rightarrow> Neo4jDatabase \<Rightarrow> 's world \<Rightarrow>
   (exn + (string \<rightharpoonup> pyval) list) \<times> Neo4jDatabase \<times> 's world" where
  "fetch_all_body E query params session self w =
     (case session_run E session query (params_or_empty params) w of
        (Inl e, w1) \<Rightarrow> (Inl e, self, w1)
      | (Inr result, w1) \<Rightarrow> (Inr (map record_data (res_rows result)), self, w1))"

definition fetch_all ::
  "'s env \<Rightarrow> Neo4jDatabase \<Rightarrow> string \<Rightarrow> params option \<Rightarrow> 's world \<Rightarrow>
   (exn + (string \<rightharpoonup> pyval) list) \<times> Neo4jDatabase \<times> 's world" where
  "fetch_all E self query params w =
     get_session E self (fetch_all_body E query params) w"

definition fetch_one_body ::
  "'s env \<Rightarrow> string \<Rightarrow> params option \<Rightarrow> nat \<Rightarrow> Neo4jDatabase \<Rightarrow> 's world \<Rightarrow>
   (exn + (string \<rightharpoonup> pyval) option) \<times> Neo4jDatabase \<times> 's world" where
  "fetch_one_body E query params session self w =
     (case session_run E session query (params_or_empty params) w of
        (Inl e, w1) \<Rightarrow> (Inl e, self, w1)
      | (Inr result, w1) \<Rightarrow>
          (case single result of
             None \<Rightarrow> (Inr None, self, w1)
           | Some rec \<Rightarrow>
               (Inr (if record_truthy rec then Some (record_data rec) else None), self, w1)))"

definition fetch_one ::
  "'s env \<Rightarrow> Neo4jDatabase \<Rightarrow> string \<Rightarrow> params option \<Rightarrow> 's world \<Rightarrow>
   (exn + (string \<rightharpoonup> pyval) option) \<times> Neo4jDatabase \<times> 's world" where
  "fetch_one E self query params w =
     get_session E self (fetch_one_body E query params) w"

definition constraints :: "string list" where
  "constraints =
     [''CREATE CONSTRAINT rule_id IF NOT EXISTS FOR (r:Rule) REQUIRE r.rule_id IS UNIQUE'',
      ''CREATE CONSTRAINT data_element_id IF NOT EXISTS FOR (d:DataElement) REQUIRE d.element_id IS UNIQUE'',
      ''CREATE CONSTRAINT category_name IF NOT EXISTS FOR (c:Category) REQUIRE c.name IS UNIQUE'']"

text \<open>The loop of \<^verbatim>\<open>create_constraints\<close> over the statements still to issue.\<close>

fun create_constraints_loop ::
  "'s env \<Rightarrow> string list \<Rightarrow> Neo4jDatabase \<Rightarrow> 's world \<Rightarrow>
   (exn + unit) \<times> Neo4jDatabase \<times> 's world" where
  "create_constraints_loop E [] self w = (Inr (), self, w)"
| "create_constraints_loop E (constraint # rest) self w =
     (case execute_query E self constraint None w of
        (Inl e, self1, w1) \<Rightarrow>
          (Inl e, self1, logger_error (''Failed to create constraint: '' @ exn_str e) w1)
      | (Inr result, self1, w1) \<Rightarrow>
          create_constraints_loop E rest self1
            (logger_info (''Applied constraint: '' @ constraint) w1))"

definition create_constraints ::
  "'s env \<Rightarrow> Neo4jDatabase \<Rightarrow> 's world \<Rightarrow> (exn + unit) \<times> Neo4jDatabase \<times> 's world" where
  "create_constraints E self w = create_constraints_loop E constraints self w"

section \<open>Callers of connect in several threads\<close>






section \<open>Example environments\<close>

text \<open>
  Small stores to run the definitions on. Three have no state of their own: one answers
  every statement with the same rows, one raises the same exception on every statement, one
  raises it on a single statement and answers the others with no row. The fourth keeps the
  statements it has applied and applies a statement only when it has not yet, as a store
  does with a statement in the IF NOT EXISTS form. Then a manager as \<^verbatim>\<open>__init__\<close> leaves
  it with no setting in the process environment, the same manager holding driver 0, and
  the worlds that go with them.
\<close>

definition no_environ :: "string \<rightharpoonup> string" where
  "no_environ k = None"

definition driver_succeeds :: "string \<Rightarrow> string \<Rightarrow> string \<Rightarrow> exn option" where
  "driver_succeeds u usr pw = None"

definition answers :: "row list \<Rightarrow> unit \<Rightarrow> string \<Rightarrow> params \<Rightarrow> (exn + row list) \<times> unit" where
  "answers rows st q p = (Inr rows, st)"

definition raises :: "exn \<Rightarrow> unit \<Rightarrow> string \<Rightarrow> params \<Rightarrow> (exn + row list) \<times> unit" where
  "raises e st q p = (Inl e, st)"

definition raises_on ::
  "string \<Rightarrow> exn \<Rightarrow> unit \<Rightarrow> string \<Rightarrow> params \<Rightarrow> (exn + row list) \<times> unit" where
  "raises_on bad e st q p = (if q = bad then (Inl e, st) else (Inr [], st))"

definition applies_once ::
  "string list \<Rightarrow> string \<Rightarrow> params \<Rightarrow> (exn + row list) \<times> string list" where
  "applies_once st q p = (Inr [], if q \<in> set st then st else st @ [q])"

definition answering_env :: "row list \<Rightarrow> unit env" where
  "answering_env rows = \<lparr> new_driver = driver_succeeds, run_query = answers rows \<rparr>"

definition raising_env :: "exn \<Rightarrow> unit env" where
  "raising_env e = \<lparr> new_driver = driver_succeeds, run_query = raises e \<rparr>"

definition raising_on_env :: "string \<Rightarrow> exn \<Rightarrow> unit env" where
  "raising_on_env bad e = \<lparr> new_driver = driver_succeeds, run_query = raises_on bad e \<rparr>"

definition schema_env :: "string list env" where
  "schema_env = \<lparr> new_driver = driver_succeeds, run_query = applies_once \<rparr>"

definition world_around :: "'s \<Rightarrow> 's world" where
  "world_around st =
     \<lparr> store = st, drivers = [], closed_drivers = [], sessions = [], open_sessions = [],
       closed_sessions = [], history = [], logged = [] \<rparr>"

definition new_world :: "unit world" where
  "new_world = world_around ()"

definition new_db :: Neo4jDatabase where
  "new_db = init no_environ"

definition connected_db :: Neo4jDatabase where
  "connected_db = new_db\<lparr>priv_driver := Some 0\<rparr>"

definition connected_around :: "'s \<Rightarrow> 's world" where
  "connected_around st =
     (world_around st)\<lparr>drivers := [(''bolt://localhost:7687'', ''neo4j'', ''password'')]\<rparr>"

definition connected_world :: "unit world" where
  "connected_world = connected_around ()"

section \<open>Properties of the validators\<close>

lemma find_lower_member:
  assumes "lower s \<in> set (map lower xs)"
  shows "\<exists>c. find (\<lambda>cat. lower s = lower cat) xs = Some c \<and> c \<in> set xs \<and> lower c = lower s"
proof (cases "find (\<lambda>cat. lower s = lower cat) xs")
  case None
  then have "\<forall>x \<in> set xs. lower s \<noteq> lower x"
    by (simp add: find_None_iff)
  with assms show ?thesis by auto
next
  case (Some c)
  then have "c \<in> set xs" and "lower s = lower c"
    by (auto simp: find_Some_iff)
  with Some show ?thesis by simp
qed

lemma RULE_CATEGORIES_lower: "map lower RULE_CATEGORIES = RULE_CATEGORIES"
  by (simp add: RULE_CATEGORIES_def lower_def lower_char_def)

lemma OBLIGATION_LEVELS_lower: "map lower OBLIGATION_LEVELS = OBLIGATION_LEVELS"
  by (simp add: OBLIGATION_LEVELS_def lower_def lower_char_def)

lemma lower_VALIDATION: "lower ''VaLiDaTiOn'' = ''validation''"
  by (simp add: lower_def lower_char_def)

lemma lower_Optional: "lower ''Optional'' = ''optional''"
  by (simp add: lower_def lower_char_def)

lemma lower_urgent: "lower ''urgent'' = ''urgent''"
  by (simp add: lower_def lower_char_def)

text \<open>
  Claim C2. A string given for a rule's category or obligation level is compared, lowered,
  with the lowered members of the configured list. When it matches one, the validator
  accepts it and returns a member of the list as configuration spells it, equal to the
  input up to case; when it matches none, the validator raises \<open>ValueError\<close> (the failure
  the specification calls InvalidEnumerationValue) with a message that names the field,
  quotes the input and prints the configured list.
\<close>

theorem enum_validation:
  "(lower s \<in> set (map lower RULE_CATEGORIES) \<longrightarrow>
      (\<exists>c \<in> set RULE_CATEGORIES. lower c = lower s \<and>
         RuleBase_validate_category (PyStr s) = Inr (PyStr c))) \<and>
   (lower s \<notin> set (map lower RULE_CATEGORIES) \<longrightarrow>
      RuleBase_validate_category (PyStr s) =
        Inl (ValueError (''Invalid category: '' @ s @ ''. Must be one of ''
                         @ repr_list RULE_CATEGORIES))) \<and>
   (lower s \<in> set (map lower OBLIGATION_LEVELS) \<longrightarrow>
      (\<exists>c \<in> set OBLIGATION_LEVELS. lower c = lower s \<and>
         RuleBase_validate_obligation_level (PyStr s) = Inr (PyStr c))) \<and>
   (lower s \<notin> set (map lower OBLIGATION_LEVELS) \<longrightarrow>
      RuleBase_validate_obligation_level (PyStr s) =
        Inl (ValueError (''Invalid obligation level: '' @ s @ ''. Must be one of ''
                         @ repr_list OBLIGATION_LEVELS)))"
proof (intro conjI impI)
  assume a: "lower s \<in> set (map lower RULE_CATEGORIES)"
  from find_lower_member [OF a]
  obtain c where "find (\<lambda>cat. lower s = lower cat) RULE_CATEGORIES = Some c"
    and "c \<in> set RULE_CATEGORIES" and "lower c = lower s" by blast
  with a show "\<exists>c \<in> set RULE_CATEGORIES. lower c = lower s \<and>
         RuleBase_validate_category (PyStr s) = Inr (PyStr c)"
    by (auto simp: RuleBase_validate_category_def)
next
  assume "lower s \<notin> set (map lower RULE_CATEGORIES)"
  then show "RuleBase_validate_category (PyStr s) =
        Inl (ValueError (''Invalid category: '' @ s @ ''. Must be one of ''
                         @ repr_list RULE_CATEGORIES))"
    by (simp add: RuleBase_validate_category_def)
next
  assume a: "lower s \<in> set (map lower OBLIGATION_LEVELS)"
  from find_lower_member [OF a]
  obtain c where "find (\<lambda>cat. lower s = lower cat) OBLIGATION_LEVELS = Some c"
    and "c \<in> set OBLIGATION_LEVELS" and "lower c = lower s" by blast
  with a show "\<exists>c \<in> set OBLIGATION_LEVELS. lower c = lower s \<and>
         RuleBase_validate_obligation_level (PyStr s) = Inr (PyStr c)"
    by (auto simp: RuleBase_validate_obligation_level_def)
next
  assume "lower s \<notin> set (map lower OBLIGATION_LEVELS)"
  then show "RuleBase_validate_obligation_level (PyStr s) =
        Inl (ValueError (''Invalid obligation level: '' @ s @ ''. Must be one of ''
                         @ repr_list OBLIGATION_LEVELS))"
    by (simp add: RuleBase_validate_obligation_level_def)
qed

theorem enum_validation_witness:
  "RuleBase_validate_category (PyStr ''VaLiDaTiOn'') = Inr (PyStr ''validation'') \<and>
   RuleBase_validate_category (PyStr ''urgent'') =
     Inl (ValueError (''Invalid category: urgent. Must be one of ''
                      @ repr_list RULE_CATEGORIES)) \<and>
   RuleBase_validate_obligation_level (PyStr ''Optional'') = Inr (PyStr ''optional'') \<and>
   RuleBase_validate_obligation_level (PyStr ''urgent'') =
     Inl (ValueError (''Invalid obligation level: urgent. Must be one of ''
                      @ repr_list OBLIGATION_LEVELS))"
proof -
  have low: "\<forall>c \<in> set RULE_CATEGORIES. lower c = c" "\<forall>c \<in> set OBLIGATION_LEVELS. lower c = c"
    by (simp_all add: RULE_CATEGORIES_def OBLIGATION_LEVELS_def lower_def lower_char_def)
  have m1: "lower ''VaLiDaTiOn'' \<in> set (map lower RULE_CATEGORIES)"
    unfolding RULE_CATEGORIES_lower lower_VALIDATION by (simp add: RULE_CATEGORIES_def)
  have m2: "lower ''urgent'' \<notin> set (map lower RULE_CATEGORIES)"
    unfolding RULE_CATEGORIES_lower lower_urgent by (simp add: RULE_CATEGORIES_def)
  have m3: "lower ''Optional'' \<in> set (map lower OBLIGATION_LEVELS)"
    unfolding OBLIGATION_LEVELS_lower lower_Optional by (simp add: OBLIGATION_LEVELS_def)
  have m4: "lower ''urgent'' \<notin> set (map lower OBLIGATION_LEVELS)"
    unfolding OBLIGATION_LEVELS_lower lower_urgent by (simp add: OBLIGATION_LEVELS_def)
  from enum_validation [of "''VaLiDaTiOn''"] m1 low(1)
  have 1: "RuleBase_validate_category (PyStr ''VaLiDaTiOn'') = Inr (PyStr ''validation'')"
    unfolding lower_VALIDATION by metis
  from enum_validation [of "''Optional''"] m3 low(2)
  have 3: "RuleBase_validate_obligation_level (PyStr ''Optional'') = Inr (PyStr ''optional'')"
    unfolding lower_Optional by metis
  from enum_validation [of "''urgent''"] m2 m4
  have 2: "RuleBase_validate_category (PyStr ''urgent'') =
     Inl (ValueError (''Invalid category: '' @ ''urgent'' @ ''. Must be one of ''
                      @ repr_list RULE_CATEGORIES))"
    and 4: "RuleBase_validate_obligation_level (PyStr ''urgent'') =
     Inl (ValueError (''Invalid obligation level: '' @ ''urgent'' @ ''. Must be one of ''
                      @ repr_list OBLIGATION_LEVELS))"
    by blast+
  from 1 2 3 4 show ?thesis by simp
qed

text \<open>
  Claim C7. The validators of \<^verbatim>\<open>RuleUpdate\<close> return an absent value, \<^verbatim>\<open>None\<close>, unchanged and
  unvalidated, and treat every other value as the validators of \<^verbatim>\<open>RuleBase\<close> do. Applying
  a partial update leaves each field that is absent from the update as it is stored, and
  the identifier of the rule as well.
\<close>

theorem partial_update_frame:
  "RuleUpdate_validate_category PyNone = Inr PyNone \<and>
   RuleUpdate_validate_obligation_level PyNone = Inr PyNone \<and>
   (v \<noteq> PyNone \<longrightarrow>
      RuleUpdate_validate_category v = RuleBase_validate_category v \<and>
      RuleUpdate_validate_obligation_level v = RuleBase_validate_obligation_level v) \<and>
   (upd_name u = None \<longrightarrow> name (apply_update u r) = name r) \<and>
   (upd_description u = None \<longrightarrow> description (apply_update u r) = description r) \<and>
   (upd_category u = None \<longrightarrow> category (apply_update u r) = category r) \<and>
   (upd_obligation_level u = None \<longrightarrow>
      obligation_level (apply_update u r) = obligation_level r) \<and>
   (upd_data_elements u = None \<longrightarrow> data_elements (apply_update u r) = data_elements r) \<and>
   (upd_conditions u = None \<longrightarrow> conditions (apply_update u r) = conditions r) \<and>
   (upd_actions u = None \<longrightarrow> actions (apply_update u r) = actions r) \<and>
   (upd_exceptions u = None \<longrightarrow> exceptions (apply_update u r) = exceptions r) \<and>
   (upd_thresholds u = None \<longrightarrow> thresholds (apply_update u r) = thresholds r) \<and>
   (upd_validation_logic u = None \<longrightarrow>
      validation_logic (apply_update u r) = validation_logic r) \<and>
   (upd_source_reference u = None \<longrightarrow>
      source_reference (apply_update u r) = source_reference r) \<and>
   (upd_effective_date u = None \<longrightarrow> effective_date (apply_update u r) = effective_date r) \<and>
   (upd_related_rules u = None \<longrightarrow> related_rules (apply_update u r) = related_rules r) \<and>
   rule_id (apply_update u r) = rule_id r"
  by (simp add: RuleUpdate_validate_category_def RuleUpdate_validate_obligation_level_def
      RuleBase_validate_category_def RuleBase_validate_obligation_level_def
      apply_update_def)

theorem partial_update_frame_witness:
  "RuleUpdate_validate_category (PyStr ''Compliance'') = Inr (PyStr ''compliance'') \<and>
   RuleUpdate_validate_obligation_level (PyStr ''Compliance'')
     = RuleBase_validate_obligation_level (PyStr ''Compliance'') \<and>
   apply_update (RuleUpdate_defaults\<lparr>upd_description := Some ''new text''\<rparr>) Rule_example
     = Rule_example\<lparr>description := ''new text''\<rparr> \<and>
   apply_update RuleUpdate_defaults Rule_example = Rule_example"
proof -
  let ?u = "RuleUpdate_defaults\<lparr>upd_description := Some ''new text''\<rparr>"
  have v: "PyStr ''Compliance'' \<noteq> PyNone" by simp
  have "RuleBase_validate_category (PyStr ''Compliance'') = Inr (PyStr ''compliance'')"
    by (simp add: RuleBase_validate_category_def RULE_CATEGORIES_def lower_def lower_char_def)
  with partial_update_frame [of "PyStr ''Compliance''" ?u Rule_example] v
  have 1: "RuleUpdate_validate_category (PyStr ''Compliance'') = Inr (PyStr ''compliance'')"
    and 2: "RuleUpdate_validate_obligation_level (PyStr ''Compliance'')
             = RuleBase_validate_obligation_level (PyStr ''Compliance'')"
    by simp_all
  have d: "description (apply_update ?u Rule_example) = ''new text''"
    by (simp add: apply_update_def RuleUpdate_defaults_def)
  have fields: "upd_name ?u = None" "upd_category ?u = None" "upd_obligation_level ?u = None"
    "upd_data_elements ?u = None" "upd_conditions ?u = None" "upd_actions ?u = None"
    "upd_exceptions ?u = None" "upd_thresholds ?u = None" "upd_validation_logic ?u = None"
    "upd_source_reference ?u = None" "upd_effective_date ?u = None" "upd_related_rules ?u = None"
    "upd_description RuleUpdate_defaults = None"
    "upd_name RuleUpdate_defaults = None" "upd_category RuleUpdate_defaults = None"
    "upd_obligation_level RuleUpdate_defaults = None"
    "upd_data_elements RuleUpdate_defaults = None" "upd_conditions RuleUpdate_defaults = None"
    "upd_actions RuleUpdate_defaults = None"
    "upd_exceptions RuleUpdate_defaults = None" "upd_thresholds RuleUpdate_defaults = None"
    "upd_validation_logic RuleUpdate_defaults = None"
    "upd_source_reference RuleUpdate_defaults = None"
    "upd_effective_date RuleUpdate_defaults = None" "upd_related_rules RuleUpdate_defaults = None"
    by (simp_all add: RuleUpdate_defaults_def)
  have more: "created_at (apply_update u r) = created_at r"
    "updated_at (apply_update u r) = updated_at r" for u r
    by (simp_all add: apply_update_def)
  from partial_update_frame [of "PyStr ''Compliance''" ?u Rule_example] fields d more
  have 3: "apply_update ?u Rule_example = Rule_example\<lparr>description := ''new text''\<rparr>"
    by (intro Rule.equality) simp_all
  from partial_update_frame [of PyNone RuleUpdate_defaults Rule_example] fields more
  have 4: "apply_update RuleUpdate_defaults Rule_example = Rule_example"
    by (intro Rule.equality) simp_all
  from 1 2 3 4 show ?thesis by simp
qed

section \<open>Properties of the Connection Manager\<close>

lemma connect_stored:
  "priv_driver self = Some d \<Longrightarrow> connect E self w = (Inr d, self, w)"
  by (simp add: connect_def connect_try_def)

lemma connect_try_Inr:
  assumes "connect_try E self w = (Inr d, self1, w1)"
  shows "priv_driver self1 = Some d"
  using assms
  by (auto simp: connect_try_def split: option.splits prod.splits sum.splits)

lemma connect_Inr:
  assumes "connect E self w = (Inr d, self1, w1)"
  shows "priv_driver self1 = Some d"
proof -
  from assms have "connect_try E self w = (Inr d, self1, w1)"
    by (auto simp: connect_def split: prod.splits sum.splits if_splits)
  then show ?thesis by (rule connect_try_Inr)
qed


lemma session_close_closes:
  "s \<notin> set (open_sessions (session_close s w))"
  "s \<in> set (closed_sessions (session_close s w))"
  by (simp_all add: session_close_def)

lemma session_close_frame:
  "store (session_close s w) = store w"
  "drivers (session_close s w) = drivers w"
  "closed_drivers (session_close s w) = closed_drivers w"
  "sessions (session_close s w) = sessions w"
  "history (session_close s w) = history w"
  "logged (session_close s w) = logged w"
  by (simp_all add: session_close_def)

lemma driver_session_frame:
  "fst (driver_session d db w) = length (sessions w)"
  "store (snd (driver_session d db w)) = store w"
  "drivers (snd (driver_session d db w)) = drivers w"
  "closed_drivers (snd (driver_session d db w)) = closed_drivers w"
  "sessions (snd (driver_session d db w)) = sessions w @ [(d, db)]"
  "open_sessions (snd (driver_session d db w)) = length (sessions w) # open_sessions w"
  "history (snd (driver_session d db w)) = history w"
  "logged (snd (driver_session d db w)) = logged w"
  by (simp_all add: driver_session_def)

lemma get_session_eq:
  assumes "connect E self w = (Inr d, self1, w1)"
    and "body (length (sessions w1)) self1 (snd (driver_session d (database self1) w1))
           = (r, self3, w3)"
  shows "get_session E self body w = (r, self3, session_close (length (sessions w1)) w3)"
  using assms by (simp add: get_session_def driver_session_def)

lemma get_session_raise:
  assumes "connect E self w = (Inl e, self1, w1)"
  shows "get_session E self body w = (Inl e, self1, w1)"
  using assms by (simp add: get_session_def)

lemma session_run_after_open:
  assumes "run_query E (store w1) q p = (resp, st)"
  shows "session_run E s q p (snd (driver_session d db w1)) =
           (case resp of Inl e \<Rightarrow> Inl e | Inr rows \<Rightarrow> Inr \<lparr>res_session = s, res_rows = rows\<rparr>,
            (snd (driver_session d db w1))\<lparr>store := st, history := history w1 @ [(q, p)]\<rparr>)"
  using assms by (simp add: session_run_def driver_session_def)

lemma execute_query_eq:
  assumes "connect E self w = (Inr d, self1, w1)"
    and "run_query E (store w1) q (params_or_empty p) = (resp, st)"
  shows "execute_query E self q p w =
           (case resp of Inl e \<Rightarrow> Inl e
            | Inr rows \<Rightarrow> Inr \<lparr>res_session = length (sessions w1), res_rows = rows\<rparr>,
            self1,
            session_close (length (sessions w1))
              ((snd (driver_session d (database self1) w1))
                 \<lparr>store := st, history := history w1 @ [(q, params_or_empty p)]\<rparr>))"
  unfolding execute_query_def
  by (rule get_session_eq [OF assms(1)])
     (simp add: execute_query_body_def session_run_after_open [OF assms(2)])

lemma fetch_all_eq:
  assumes "connect E self w = (Inr d, self1, w1)"
    and "run_query E (store w1) q (params_or_empty p) = (Inr rows, st)"
  shows "fetch_all E self q p w =
           (Inr (map record_data rows), self1,
            session_close (length (sessions w1))
              ((snd (driver_session d (database self1) w1))
                 \<lparr>store := st, history := history w1 @ [(q, params_or_empty p)]\<rparr>))"
  unfolding fetch_all_def
  by (rule get_session_eq [OF assms(1)])
     (simp add: fetch_all_body_def session_run_after_open [OF assms(2)])

lemma fetch_one_eq:
  assumes "connect E self w = (Inr d, self1, w1)"
    and "run_query E (store w1) q (params_or_empty p) = (Inr rows, st)"
  shows "fetch_one E self q p w =
           (Inr (case rows of [] \<Rightarrow> None
                 | rec # others \<Rightarrow> if rec \<noteq> [] then Some (record_data rec) else None),
            self1,
            session_close (length (sessions w1))
              ((snd (driver_session d (database self1) w1))
                 \<lparr>store := st, history := history w1 @ [(q, params_or_empty p)]\<rparr>))"
  unfolding fetch_one_def
  by (rule get_session_eq [OF assms(1)])
     (simp add: fetch_one_body_def session_run_after_open [OF assms(2)] single_def
        record_truthy_def split: list.splits)

lemma logger_frame:
  "store (logger_info m w) = store w" "history (logger_info m w) = history w"
  "store (logger_error m w) = store w" "history (logger_error m w) = history w"
  "logged (logger_error m w) = logged w @ [LogError m]"
  "logged (logger_info m w) = logged w @ [LogInfo m]"
  by (simp_all add: logger_info_def logger_error_def)

lemma loop_connect_raises:
  assumes "connect E self w = (Inl e, self1, w1)"
  shows "fst (create_constraints_loop E (c # cs) self w) = Inl e"
  using assms by (simp add: execute_query_def get_session_def)

lemma loop_statement_raises:
  assumes "connect E self w = (Inr d, self1, w1)"
    and "run_query E (store w1) c [] = (Inl e, st)"
  shows "fst (create_constraints_loop E (c # cs) self w) = Inl e"
proof -
  from assms(2) have "run_query E (store w1) c (params_or_empty None) = (Inl e, st)"
    by (simp add: params_or_empty_def)
  from execute_query_eq [OF assms(1) this] show ?thesis by simp
qed

lemma loop_statement_applied:
  assumes "connect E self w = (Inr d, self1, w1)"
    and "run_query E (store w1) c [] = (Inr rows, st)"
  shows "\<exists>W. create_constraints_loop E (c # cs) self w = create_constraints_loop E cs self1 W
             \<and> store W = st \<and> history W = history w1 @ [(c, [])]
             \<and> connect E self1 W = (Inr d, self1, W)"
proof -
  let ?W = "logger_info (''Applied constraint: '' @ c)
              (session_close (length (sessions w1))
                 ((snd (driver_session d (database self1) w1))
                    \<lparr>store := st, history := history w1 @ [(c, [])]\<rparr>))"
  from assms(2) have "run_query E (store w1) c (params_or_empty None) = (Inr rows, st)"
    by (simp add: params_or_empty_def)
  from execute_query_eq [OF assms(1) this]
  have "create_constraints_loop E (c # cs) self w = create_constraints_loop E cs self1 ?W"
    by (simp add: params_or_empty_def)
  moreover have "store ?W = st" "history ?W = history w1 @ [(c, [])]"
    by (simp_all add: logger_frame session_close_frame)
  moreover from connect_Inr [OF assms(1)] have "connect E self1 ?W = (Inr d, self1, ?W)"
    by (rule connect_stored)
  ultimately show ?thesis by blast
qed

lemma constraints_nth:
  "constraints = [constraints ! 0, constraints ! 1, constraints ! 2]"
  by (simp add: constraints_def)

lemma constraints_form:
  "list_all (sublist ''IF NOT EXISTS'') constraints"
  "sublist ''(r:Rule) REQUIRE r.rule_id IS UNIQUE'' (constraints ! 0)"
  "sublist ''(d:DataElement) REQUIRE d.element_id IS UNIQUE'' (constraints ! 1)"
  "sublist ''(c:Category) REQUIRE c.name IS UNIQUE'' (constraints ! 2)"
  by (simp_all add: constraints_def sublist_Cons_right)

lemma connection_test_mismatch:
  assumes "run_query E (store w) ''RETURN 1 AS test'' [] = (Inr (rec # others), st)"
    and "map_of rec ''test'' = Some v"
    and "\<not> py_eq v (PyInt 1)"
  shows "fst (connection_test E self d w) =
           Inl (ServiceUnavailable ''Database connection test failed'') \<and>
         logged (snd (connection_test E self d w)) = logged w"
  using assms
  by (simp add: connection_test_def driver_session_def session_run_def single_def
      record_get_def session_close_def)

lemma connection_test_raises:
  assumes "run_query E (store w) ''RETURN 1 AS test'' [] = (Inl e, st)"
  shows "fst (connection_test E self d w) = Inl e \<and>
         logged (snd (connection_test E self d w)) = logged w"
  using assms
  by (simp add: connection_test_def driver_session_def session_run_def session_close_def)

lemma connect_test_raises:
  assumes "priv_driver self = None"
    and "new_driver E (uri self) (user self) (password self) = None"
    and "fst (connection_test E (self\<lparr>priv_driver := Some (length (drivers w))\<rparr>)
                (length (drivers w))
                (w\<lparr>drivers := drivers w @ [(uri self, user self, password self)]\<rparr>))
           = Inl (ServiceUnavailable m) \<and>
         logged (snd (connection_test E (self\<lparr>priv_driver := Some (length (drivers w))\<rparr>)
                (length (drivers w))
                (w\<lparr>drivers := drivers w @ [(uri self, user self, password self)]\<rparr>)))
           = logged w"
  shows "fst (connect E self w) = Inl (ServiceUnavailable m) \<and>
         logged (snd (snd (connect E self w))) =
           logged w @ [LogError (''Failed to connect to Neo4j: '' @ m)]"
proof -
  let ?t = "connection_test E (self\<lparr>priv_driver := Some (length (drivers w))\<rparr>)
                (length (drivers w))
                (w\<lparr>drivers := drivers w @ [(uri self, user self, password self)]\<rparr>)"
  obtain w2 where t: "?t = (Inl (ServiceUnavailable m), w2)" and l: "logged w2 = logged w"
    using assms(3) by (cases ?t) simp
  from assms(1,2) t have "connect_try E self w =
      (Inl (ServiceUnavailable m), self\<lparr>priv_driver := Some (length (drivers w))\<rparr>, w2)"
    by (simp add: connect_try_def GraphDatabase_driver_def)
  then show ?thesis
    by (simp add: connect_def l logger_frame)
qed








lemma example_envs:
  "run_query (answering_env rows) st q p = (Inr rows, st)"
  "run_query (raising_env e) st q p = (Inl e, st)"
  "run_query (raising_on_env bad e) st q p = (if q = bad then (Inl e, st) else (Inr [], st))"
  "run_query schema_env sl q p = (Inr [], if q \<in> set sl then sl else sl @ [q])"
  "new_driver (answering_env rows) u usr pw = None"
  "new_driver (raising_env e) u usr pw = None"
  "new_driver (raising_on_env bad e) u usr pw = None"
  "new_driver schema_env u usr pw = None"
  by (simp_all add: answering_env_def raising_env_def raising_on_env_def schema_env_def
      answers_def raises_def raises_on_def applies_once_def driver_succeeds_def)

lemma example_dbs:
  "priv_driver new_db = None"
  "uri new_db = ''bolt://localhost:7687''"
  "user new_db = ''neo4j''"
  "password new_db = ''password''"
  "database new_db = ''neo4j''"
  "priv_driver connected_db = Some 0"
  "database connected_db = ''neo4j''"
  by (simp_all add: new_db_def connected_db_def init_def no_environ_def getenv_def
      NEO4J_URI_def NEO4J_USER_def NEO4J_PASSWORD_def NEO4J_DATABASE_def)

lemma example_worlds:
  "store (world_around st) = st" "drivers (world_around st) = []"
  "closed_drivers (world_around st) = []" "sessions (world_around st) = []"
  "open_sessions (world_around st) = []" "closed_sessions (world_around st) = []"
  "history (world_around st) = []" "logged (world_around st) = []"
  "store (connected_around st) = st"
  "drivers (connected_around st) = [(''bolt://localhost:7687'', ''neo4j'', ''password'')]"
  "closed_drivers (connected_around st) = []" "sessions (connected_around st) = []"
  "open_sessions (connected_around st) = []" "closed_sessions (connected_around st) = []"
  "history (connected_around st) = []" "logged (connected_around st) = []"
  by (simp_all add: world_around_def connected_around_def)

lemma connected_connect:
  "connect E connected_db w = (Inr 0, connected_db, w)"
  by (rule connect_stored) (simp add: example_dbs)

lemma constraints_distinct:
  "constraints ! 0 \<noteq> constraints ! 1" "constraints ! 0 \<noteq> constraints ! 2"
  "constraints ! 1 \<noteq> constraints ! 2"
  by (simp_all add: constraints_def)

section \<open>The connection\<close>

text \<open>
  Claim C1, as the code has it. A call of \<^verbatim>\<open>connect\<close> that creates the driver and whose
  probe statement runs but gives, under the key \<^verbatim>\<open>test\<close>, a value that is not equal to 1
  raises \<open>ServiceUnavailable\<close> with the text "Database connection test failed". That is the
  exception class of a transport failure, here one raised while the probe statement runs;
  only the text tells the two apart. Both are caught by the same handler, which logs
  "Failed to connect to Neo4j: ..." and raises the exception again.
\<close>

theorem connect_probe_mismatch:
  assumes "priv_driver self = None"
    and "new_driver E (uri self) (user self) (password self) = None"
    and "run_query E (store w) ''RETURN 1 AS test'' [] = (resp, st)"
  shows "(\<forall>rec others v.
            resp = Inr (rec # others) \<and> map_of rec ''test'' = Some v \<and> \<not> py_eq v (PyInt 1) \<longrightarrow>
            fst (connect E self w) = Inl (ServiceUnavailable ''Database connection test failed'') \<and>
            logged (snd (snd (connect E self w))) =
              logged w @ [LogError (''Failed to connect to Neo4j: ''
                                    @ ''Database connection test failed'')]) \<and>
         (\<forall>m. resp = Inl (ServiceUnavailable m) \<longrightarrow>
            fst (connect E self w) = Inl (ServiceUnavailable m) \<and>
            logged (snd (snd (connect E self w))) =
              logged w @ [LogError (''Failed to connect to Neo4j: '' @ m)])"
proof (intro conjI allI impI)
  fix rec others v
  assume a: "resp = Inr (rec # others) \<and> map_of rec ''test'' = Some v \<and> \<not> py_eq v (PyInt 1)"
  let ?w0 = "w\<lparr>drivers := drivers w @ [(uri self, user self, password self)]\<rparr>"
  from a assms(3) have run: "run_query E (store ?w0) ''RETURN 1 AS test'' [] = (Inr (rec # others), st)"
    by simp
  from a have v: "map_of rec ''test'' = Some v" "\<not> py_eq v (PyInt 1)" by simp_all
  from connection_test_mismatch [OF run v]
       connect_test_raises [OF assms(1,2), where m = "''Database connection test failed''"]
  show "fst (connect E self w) = Inl (ServiceUnavailable ''Database connection test failed'')"
    and "logged (snd (snd (connect E self w))) =
              logged w @ [LogError (''Failed to connect to Neo4j: ''
                                    @ ''Database connection test failed'')]"
    by simp_all
next
  fix m
  assume a: "resp = Inl (ServiceUnavailable m)"
  let ?w0 = "w\<lparr>drivers := drivers w @ [(uri self, user self, password self)]\<rparr>"
  from a assms(3) have run: "run_query E (store ?w0) ''RETURN 1 AS test'' [] = (Inl (ServiceUnavailable m), st)"
    by simp
  from connection_test_raises [OF run] connect_test_raises [OF assms(1,2), where m = m]
  show "fst (connect E self w) = Inl (ServiceUnavailable m)"
    and "logged (snd (snd (connect E self w))) =
              logged w @ [LogError (''Failed to connect to Neo4j: '' @ m)]"
    by simp_all
qed

theorem connect_probe_mismatch_witness:
  "fst (connect (answering_env [[(''test'', PyInt 2)]]) new_db new_world) =
     Inl (ServiceUnavailable ''Database connection test failed'') \<and>
   logged (snd (snd (connect (answering_env [[(''test'', PyInt 2)]]) new_db new_world))) =
     [LogError ''Failed to connect to Neo4j: Database connection test failed''] \<and>
   fst (connect (raising_env (ServiceUnavailable ''Unable to retrieve routing information''))
          new_db new_world) =
     Inl (ServiceUnavailable ''Unable to retrieve routing information'') \<and>
   logged (snd (snd (connect
       (raising_env (ServiceUnavailable ''Unable to retrieve routing information''))
       new_db new_world))) =
     [LogError ''Failed to connect to Neo4j: Unable to retrieve routing information'']"
proof -
  let ?E = "answering_env [[(''test'', PyInt 2)]]"
  let ?F = "raising_env (ServiceUnavailable ''Unable to retrieve routing information'')"
  have d: "priv_driver new_db = None" by (simp add: example_dbs)
  have nE: "new_driver ?E (uri new_db) (user new_db) (password new_db) = None"
    and nF: "new_driver ?F (uri new_db) (user new_db) (password new_db) = None"
    by (simp_all add: example_envs)
  have rE: "run_query ?E (store new_world) ''RETURN 1 AS test'' []
              = (Inr [[(''test'', PyInt 2)]], ())"
    and rF: "run_query ?F (store new_world) ''RETURN 1 AS test'' []
              = (Inl (ServiceUnavailable ''Unable to retrieve routing information''), ())"
    by (simp_all add: example_envs)
  from connect_probe_mismatch [OF d nE rE] connect_probe_mismatch [OF d nF rF]
  show ?thesis by (simp add: new_world_def example_worlds)
qed

text \<open>
  Against C1 as stated, which expects an exception of a class of its own: with a store that
  answers the probe with 2, the caller receives \<open>ServiceUnavailable\<close>, the very value that
  a store raising \<open>ServiceUnavailable\<close> with that text on the probe gives.
\<close>

theorem probe_mismatch_counterexample:
  "fst (connect (answering_env [[(''test'', PyInt 2)]]) new_db new_world) =
     Inl (ServiceUnavailable ''Database connection test failed'') \<and>
   fst (connect (answering_env [[(''test'', PyInt 2)]]) new_db new_world) =
     fst (connect (raising_env (ServiceUnavailable ''Database connection test failed''))
            new_db new_world)"
  by (simp add: connect_def connect_try_def connection_test_def GraphDatabase_driver_def
      driver_session_def session_run_def single_def record_get_def session_close_def
      example_envs example_dbs example_worlds new_world_def)

text \<open>
  Claim C10. When \<^verbatim>\<open>connect\<close>, called without a stored driver, has created the driver and
  then raises, the manager keeps that driver; a later \<^verbatim>\<open>connect\<close>, in whatever world,
  returns it and changes nothing: no statement is sent, so the probe is not repeated.
\<close>

theorem connect_keeps_untested_driver:
  assumes "priv_driver self = None"
    and "GraphDatabase_driver E (uri self) (user self) (password self) w = (Inr d, w0)"
    and "connect E self w = (Inl e, self', w')"
  shows "priv_driver self' = Some d \<and> connect E self' w'' = (Inr d, self', w'')"
proof -
  from assms have "priv_driver self' = Some d"
    by (auto simp: connect_def connect_try_def split: prod.splits sum.splits if_splits)
  then show ?thesis by (simp add: connect_stored)
qed

theorem connect_keeps_untested_driver_witness:
  "priv_driver (fst (snd (connect (answering_env [[(''test'', PyInt 2)]]) new_db new_world)))
     = Some 0 \<and>
   connect (answering_env [[(''test'', PyInt 2)]])
     (fst (snd (connect (answering_env [[(''test'', PyInt 2)]]) new_db new_world)))
     (snd (snd (connect (answering_env [[(''test'', PyInt 2)]]) new_db new_world)))
   = (Inr 0,
      fst (snd (connect (answering_env [[(''test'', PyInt 2)]]) new_db new_world)),
      snd (snd (connect (answering_env [[(''test'', PyInt 2)]]) new_db new_world)))"
proof -
  let ?E = "answering_env [[(''test'', PyInt 2)]]"
  let ?c = "connect ?E new_db new_world"
  have d: "priv_driver new_db = None" by (simp add: example_dbs)
  have g: "GraphDatabase_driver ?E (uri new_db) (user new_db) (password new_db) new_world
             = (Inr 0, new_world\<lparr>drivers := [(uri new_db, user new_db, password new_db)]\<rparr>)"
    by (simp add: GraphDatabase_driver_def example_envs new_world_def example_worlds)
  have "fst ?c = Inl (ServiceUnavailable ''Database connection test failed'')"
    by (simp add: connect_def connect_try_def connection_test_def GraphDatabase_driver_def
      driver_session_def session_run_def single_def record_get_def session_close_def
      example_envs example_dbs example_worlds new_world_def)
  then have c: "?c = (Inl (ServiceUnavailable ''Database connection test failed''),
                      fst (snd ?c), snd (snd ?c))"
    by (metis prod.collapse)
  from connect_keeps_untested_driver [OF d g c] show ?thesis by simp
qed




section \<open>Sessions and queries\<close>

text \<open>
  Claim C3. When \<^verbatim>\<open>get_session\<close> has acquired a session (the connection is there, it is
  stored in the manager, and the new session is open when the block starts), then however
  the block ends, with a value or with an exception \<open>r\<close>, \<^verbatim>\<open>get_session\<close> ends the same way
  with that session closed and no longer open. Releasing the session closes no driver and
  leaves the manager as the block left it: if the block itself did not touch the manager
  or close a driver, and the driver was open at the acquisition, the manager still stores
  that driver and it is still open.
\<close>

theorem get_session_releases:
  assumes "connect E self w = (Inr d, self1, w1)"
    and "body (length (sessions w1)) self1 (snd (driver_session d (database self1) w1))
           = (r, self3, w3)"
  shows "priv_driver self1 = Some d \<and>
         length (sessions w1) \<in> set (open_sessions (snd (driver_session d (database self1) w1))) \<and>
         (\<exists>w'. get_session E self body w = (r, self3, w') \<and>
               length (sessions w1) \<notin> set (open_sessions w') \<and>
               length (sessions w1) \<in> set (closed_sessions w') \<and>
               closed_drivers w' = closed_drivers w3 \<and>
               drivers w' = drivers w3 \<and>
               (self3 = self1 \<and> closed_drivers w3 = closed_drivers w1 \<and>
                d \<notin> set (closed_drivers w1) \<longrightarrow>
                  priv_driver self3 = Some d \<and> d \<notin> set (closed_drivers w')))"
  using connect_Inr [OF assms(1)] get_session_eq [where body = body, OF assms]
  by (simp add: session_close_closes session_close_frame driver_session_frame)

theorem get_session_releases_witness:
  "fst (get_session (raising_env (DriverError ''boom'')) connected_db
          (fetch_all_body (raising_env (DriverError ''boom'')) ''MATCH (n) RETURN n'' None)
          connected_world) = Inl (DriverError ''boom'') \<and>
   0 \<in> set (closed_sessions (snd (snd (get_session (raising_env (DriverError ''boom''))
          connected_db
          (fetch_all_body (raising_env (DriverError ''boom'')) ''MATCH (n) RETURN n'' None)
          connected_world)))) \<and>
   0 \<notin> set (open_sessions (snd (snd (get_session (raising_env (DriverError ''boom''))
          connected_db
          (fetch_all_body (raising_env (DriverError ''boom'')) ''MATCH (n) RETURN n'' None)
          connected_world)))) \<and>
   0 \<notin> set (closed_drivers (snd (snd (get_session (raising_env (DriverError ''boom''))
          connected_db
          (fetch_all_body (raising_env (DriverError ''boom'')) ''MATCH (n) RETURN n'' None)
          connected_world)))) \<and>
   priv_driver (fst (snd (get_session (raising_env (DriverError ''boom'')) connected_db
          (fetch_all_body (raising_env (DriverError ''boom'')) ''MATCH (n) RETURN n'' None)
          connected_world))) = Some 0 \<and>
   fst (get_session (answering_env [[(''n'', PyInt 7)]]) connected_db
          (fetch_all_body (answering_env [[(''n'', PyInt 7)]]) ''MATCH (n) RETURN n'' None)
          connected_world) = Inr [record_data [(''n'', PyInt 7)]] \<and>
   0 \<in> set (closed_sessions (snd (snd (get_session (answering_env [[(''n'', PyInt 7)]])
          connected_db
          (fetch_all_body (answering_env [[(''n'', PyInt 7)]]) ''MATCH (n) RETURN n'' None)
          connected_world)))) \<and>
   0 \<notin> set (open_sessions (snd (snd (get_session (answering_env [[(''n'', PyInt 7)]])
          connected_db
          (fetch_all_body (answering_env [[(''n'', PyInt 7)]]) ''MATCH (n) RETURN n'' None)
          connected_world)))) \<and>
   0 \<notin> set (closed_drivers (snd (snd (get_session (answering_env [[(''n'', PyInt 7)]])
          connected_db
          (fetch_all_body (answering_env [[(''n'', PyInt 7)]]) ''MATCH (n) RETURN n'' None)
          connected_world)))) \<and>
   priv_driver (fst (snd (get_session (answering_env [[(''n'', PyInt 7)]]) connected_db
          (fetch_all_body (answering_env [[(''n'', PyInt 7)]]) ''MATCH (n) RETURN n'' None)
          connected_world))) = Some 0"
proof -
  let ?F = "raising_env (DriverError ''boom'')" and ?E = "answering_env [[(''n'', PyInt 7)]]"
  let ?q = "''MATCH (n) RETURN n''"
  let ?w2 = "snd (driver_session 0 (database connected_db) connected_world)"
  let ?wF = "?w2\<lparr>store := (), history := history ?w2 @ [(?q, [])]\<rparr>"
  have cF: "connect ?F connected_db connected_world = (Inr 0, connected_db, connected_world)"
    and cE: "connect ?E connected_db connected_world = (Inr 0, connected_db, connected_world)"
    by (rule connected_connect)+
  have len: "length (sessions connected_world) = 0"
    by (simp add: connected_world_def example_worlds)
  have bF: "fetch_all_body ?F ?q None (length (sessions connected_world)) connected_db ?w2
              = (Inl (DriverError ''boom''), connected_db, ?wF)"
    and bE: "fetch_all_body ?E ?q None (length (sessions connected_world)) connected_db ?w2
              = (Inr [record_data [(''n'', PyInt 7)]], connected_db, ?wF)"
    by (simp_all add: fetch_all_body_def session_run_def params_or_empty_def example_envs)
  have open0: "0 \<notin> set (closed_drivers connected_world)"
    "closed_drivers ?wF = closed_drivers connected_world"
    by (simp_all add: connected_world_def example_worlds driver_session_def)
  from get_session_releases [where body = "fetch_all_body ?F ?q None", OF cF bF]
       get_session_releases [where body = "fetch_all_body ?E ?q None", OF cE bE]
       open0 len
  show ?thesis by auto
qed

text \<open>
  Claim C9. When \<^verbatim>\<open>execute_query\<close> returns a \<^verbatim>\<open>Result\<close>, the session that result belongs to
  is closed and no longer open in the world the caller continues in.
\<close>

theorem execute_query_session_closed:
  assumes "execute_query E self q p w = (Inr res, self', w')"
  shows "res_session res \<in> set (closed_sessions w') \<and>
         res_session res \<notin> set (open_sessions w')"
proof (cases "connect E self w")
  case (fields r self1 w1)
  show ?thesis
  proof (cases r)
    case (Inl e)
    with fields assms show ?thesis
      by (simp add: execute_query_def get_session_def)
  next
    case (Inr d)
    obtain resp st where run: "run_query E (store w1) q (params_or_empty p) = (resp, st)"
      by (cases "run_query E (store w1) q (params_or_empty p)")
    from fields Inr have conn: "connect E self w = (Inr d, self1, w1)" by simp
    from assms execute_query_eq [OF conn run] show ?thesis
      by (cases resp) (auto simp: session_close_closes)
  qed
qed

theorem execute_query_session_closed_witness:
  "fst (execute_query (answering_env [[(''test'', PyInt 1)]]) new_db ''RETURN 1 AS test'' None
          new_world)
     = Inr \<lparr>res_session = 1, res_rows = [[(''test'', PyInt 1)]]\<rparr> \<and>
   1 \<in> set (closed_sessions (snd (snd
          (execute_query (answering_env [[(''test'', PyInt 1)]]) new_db ''RETURN 1 AS test'' None
             new_world)))) \<and>
   1 \<notin> set (open_sessions (snd (snd
          (execute_query (answering_env [[(''test'', PyInt 1)]]) new_db ''RETURN 1 AS test'' None
             new_world))))"
proof -
  let ?E = "answering_env [[(''test'', PyInt 1)]]"
  let ?x = "execute_query ?E new_db ''RETURN 1 AS test'' None new_world"
  have f: "fst ?x = Inr \<lparr>res_session = 1, res_rows = [[(''test'', PyInt 1)]]\<rparr>"
    by (simp add: execute_query_def get_session_def execute_query_body_def params_or_empty_def
      connect_def connect_try_def connection_test_def GraphDatabase_driver_def
      driver_session_def session_run_def single_def record_get_def session_close_def
      logger_info_def example_envs example_dbs example_worlds new_world_def)
  then have x: "?x = (Inr \<lparr>res_session = 1, res_rows = [[(''test'', PyInt 1)]]\<rparr>,
                      fst (snd ?x), snd (snd ?x))"
    by (metis prod.collapse)
  from execute_query_session_closed [OF x] f show ?thesis by simp
qed

text \<open>
  Claim C5. When the connection is there and the statement runs, \<^verbatim>\<open>fetch_all\<close> returns a
  list, built before the session is closed, that holds the dictionary of every row in the
  order of the result; for a result without rows it is the empty list.
\<close>

theorem fetch_all_rows:
  assumes "connect E self w = (Inr d, self1, w1)"
    and "run_query E (store w1) q (params_or_empty p) = (Inr rows, st)"
  shows "fst (fetch_all E self q p w) = Inr (map record_data rows) \<and>
         (rows = [] \<longrightarrow> fst (fetch_all E self q p w) = Inr [])"
  by (simp add: fetch_all_eq [OF assms])

theorem fetch_all_rows_witness:
  "fst (fetch_all (answering_env []) connected_db ''MATCH (r:Rule) RETURN r.rule_id AS rule_id''
          None connected_world) = Inr [] \<and>
   fst (fetch_all (answering_env [[(''rule_id'', PyStr ''R001'')], [(''rule_id'', PyStr ''R002'')]])
          connected_db ''MATCH (r:Rule) RETURN r.rule_id AS rule_id'' None connected_world)
     = Inr [record_data [(''rule_id'', PyStr ''R001'')], record_data [(''rule_id'', PyStr ''R002'')]]"
proof -
  let ?q = "''MATCH (r:Rule) RETURN r.rule_id AS rule_id''"
  let ?rows = "[[(''rule_id'', PyStr ''R001'')], [(''rule_id'', PyStr ''R002'')]]"
  let ?E0 = "answering_env []" and ?E1 = "answering_env ?rows"
  have c0: "connect ?E0 connected_db connected_world = (Inr 0, connected_db, connected_world)"
    and c1: "connect ?E1 connected_db connected_world = (Inr 0, connected_db, connected_world)"
    by (rule connected_connect)+
  have r0: "run_query ?E0 (store connected_world) ?q (params_or_empty None) = (Inr [], ())"
    and r1: "run_query ?E1 (store connected_world) ?q (params_or_empty None) = (Inr ?rows, ())"
    by (simp_all add: example_envs)
  from fetch_all_rows [OF c0 r0] fetch_all_rows [OF c1 r1]
  show ?thesis by simp
qed

text \<open>
  Claim C4. When the connection is there and the statement runs, \<^verbatim>\<open>fetch_one\<close> returns
  \<^verbatim>\<open>None\<close> for a result without rows and the dictionary of the row for a result of exactly
  one row. The row has at least one column, as every row of a Cypher \<^verbatim>\<open>RETURN\<close> has: the
  source tests the truth value of the record, which is false for a record without columns.
\<close>

theorem fetch_one_none_or_row:
  assumes "connect E self w = (Inr d, self1, w1)"
    and "run_query E (store w1) q (params_or_empty p) = (Inr rows, st)"
  shows "(rows = [] \<longrightarrow> fst (fetch_one E self q p w) = Inr None) \<and>
         (\<forall>rec. rows = [rec] \<and> rec \<noteq> [] \<longrightarrow>
            fst (fetch_one E self q p w) = Inr (Some (record_data rec)))"
  by (auto simp: fetch_one_eq [OF assms])

theorem fetch_one_none_or_row_witness:
  "fst (fetch_one (answering_env []) connected_db ''MATCH (r:Rule) RETURN r.rule_id AS rule_id''
          None connected_world) = Inr None \<and>
   fst (fetch_one (answering_env [[(''rule_id'', PyStr ''R001'')]]) connected_db
          ''MATCH (r:Rule) RETURN r.rule_id AS rule_id'' None connected_world)
     = Inr (Some (record_data [(''rule_id'', PyStr ''R001'')]))"
proof -
  let ?q = "''MATCH (r:Rule) RETURN r.rule_id AS rule_id''"
  let ?E0 = "answering_env []" and ?E1 = "answering_env [[(''rule_id'', PyStr ''R001'')]]"
  have c0: "connect ?E0 connected_db connected_world = (Inr 0, connected_db, connected_world)"
    and c1: "connect ?E1 connected_db connected_world = (Inr 0, connected_db, connected_world)"
    by (rule connected_connect)+
  have r0: "run_query ?E0 (store connected_world) ?q (params_or_empty None) = (Inr [], ())"
    and r1: "run_query ?E1 (store connected_world) ?q (params_or_empty None)
               = (Inr [[(''rule_id'', PyStr ''R001'')]], ())"
    by (simp_all add: example_envs)
  from fetch_one_none_or_row [OF c0 r0] fetch_one_none_or_row [OF c1 r1]
  show ?thesis by simp
qed

section \<open>Constraints\<close>

text \<open>
  Claim C6. The three statements of \<^verbatim>\<open>create_constraints\<close> are in the IF NOT EXISTS form
  and declare the uniqueness of \<^verbatim>\<open>Rule.rule_id\<close>, \<^verbatim>\<open>DataElement.element_id\<close> and
  \<^verbatim>\<open>Category.name\<close>. Name the outcome \<open>c\<close> of connecting and the answers \<open>r0\<close>, \<open>r1\<close>, \<open>r2\<close>
  of the store to the three statements in turn. A failure of the connection or of a
  statement, the earlier ones having succeeded, is the exception \<^verbatim>\<open>create_constraints\<close>
  raises. When all succeed it returns, the store is in the state the third statement left,
  and these three statements, in this order, are all it has sent; so when the store
  answers each of them without changing state, as it does for the IF NOT EXISTS form once
  the constraints exist, the call succeeds and leaves the store as it was.
\<close>

theorem create_constraints_issues:
  assumes "connect E self w = (c, self1, w1)"
    and "run_query E (store w1) (constraints ! 0) [] = (r0, st0)"
    and "run_query E st0 (constraints ! 1) [] = (r1, st1)"
    and "run_query E st1 (constraints ! 2) [] = (r2, st2)"
  shows "list_all (sublist ''IF NOT EXISTS'') constraints \<and>
         sublist ''(r:Rule) REQUIRE r.rule_id IS UNIQUE'' (constraints ! 0) \<and>
         sublist ''(d:DataElement) REQUIRE d.element_id IS UNIQUE'' (constraints ! 1) \<and>
         sublist ''(c:Category) REQUIRE c.name IS UNIQUE'' (constraints ! 2) \<and>
         (\<forall>e. c = Inl e \<longrightarrow> fst (create_constraints E self w) = Inl e) \<and>
         (\<forall>e. \<not> isl c \<and> r0 = Inl e \<longrightarrow> fst (create_constraints E self w) = Inl e) \<and>
         (\<forall>e. \<not> isl c \<and> \<not> isl r0 \<and> r1 = Inl e \<longrightarrow>
              fst (create_constraints E self w) = Inl e) \<and>
         (\<forall>e. \<not> isl c \<and> \<not> isl r0 \<and> \<not> isl r1 \<and> r2 = Inl e \<longrightarrow>
              fst (create_constraints E self w) = Inl e) \<and>
         (\<not> isl c \<and> \<not> isl r0 \<and> \<not> isl r1 \<and> \<not> isl r2 \<longrightarrow>
            fst (create_constraints E self w) = Inr () \<and>
            store (snd (snd (create_constraints E self w))) = st2 \<and>
            history (snd (snd (create_constraints E self w))) =
              history w1 @ [(constraints ! 0, []), (constraints ! 1, []), (constraints ! 2, [])]) \<and>
         (\<not> isl c \<and> \<not> isl r0 \<and> \<not> isl r1 \<and> \<not> isl r2 \<and>
          st0 = store w1 \<and> st1 = store w1 \<and> st2 = store w1 \<longrightarrow>
            fst (create_constraints E self w) = Inr () \<and>
            store (snd (snd (create_constraints E self w))) = store w1)"
proof -
  let ?a = "constraints ! 0" and ?b = "constraints ! 1" and ?c = "constraints ! 2"
  have cc: "create_constraints E self w = create_constraints_loop E [?a, ?b, ?c] self w"
    unfolding create_constraints_def by (subst constraints_nth) (rule refl)
  have A: "fst (create_constraints E self w) = Inl e" if "c = Inl e" for e
    using loop_connect_raises [of E self w e self1 w1 ?a "[?b, ?c]"] assms(1) that
    unfolding cc by (simp del: create_constraints_loop.simps)
  have B: "fst (create_constraints E self w) = Inl e" if "c = Inr d" "r0 = Inl e" for e d
    using loop_statement_raises [of E self w d self1 w1 ?a e st0] assms(1,2) that
    unfolding cc by (simp del: create_constraints_loop.simps)
  have C: "fst (create_constraints E self w) = Inl e"
    if "c = Inr d" "r0 = Inr rows0" "r1 = Inl e" for e d rows0
  proof -
    from loop_statement_applied [of E self w d self1 w1 ?a rows0 st0 "[?b, ?c]"] assms(1,2) that
    obtain W where W: "create_constraints_loop E [?a, ?b, ?c] self w
                         = create_constraints_loop E [?b, ?c] self1 W"
      "store W = st0" "connect E self1 W = (Inr d, self1, W)"
      by (auto simp del: create_constraints_loop.simps)
    from loop_statement_raises [of E self1 W d self1 W ?b e st1 "[?c]"] W assms(3) that
    show ?thesis unfolding cc by (simp del: create_constraints_loop.simps)
  qed
  have D: "fst (create_constraints E self w) = Inl e"
    if "c = Inr d" "r0 = Inr rows0" "r1 = Inr rows1" "r2 = Inl e" for e d rows0 rows1
  proof -
    from loop_statement_applied [of E self w d self1 w1 ?a rows0 st0 "[?b, ?c]"] assms(1,2) that
    obtain W where W: "create_constraints_loop E [?a, ?b, ?c] self w
                         = create_constraints_loop E [?b, ?c] self1 W"
      "store W = st0" "connect E self1 W = (Inr d, self1, W)"
      by (auto simp del: create_constraints_loop.simps)
    from loop_statement_applied [of E self1 W d self1 W ?b rows1 st1 "[?c]"] W assms(3) that
    obtain W' where W': "create_constraints_loop E [?b, ?c] self1 W
                         = create_constraints_loop E [?c] self1 W'"
      "store W' = st1" "connect E self1 W' = (Inr d, self1, W')"
      by (auto simp del: create_constraints_loop.simps)
    from loop_statement_raises [of E self1 W' d self1 W' ?c e st2 "[]"] W W' assms(4) that
    show ?thesis unfolding cc by (simp del: create_constraints_loop.simps)
  qed
  have F: "fst (create_constraints E self w) = Inr () \<and>
            store (snd (snd (create_constraints E self w))) = st2 \<and>
            history (snd (snd (create_constraints E self w))) =
              history w1 @ [(?a, []), (?b, []), (?c, [])]"
    if "c = Inr d" "r0 = Inr rows0" "r1 = Inr rows1" "r2 = Inr rows2" for d rows0 rows1 rows2
  proof -
    from loop_statement_applied [of E self w d self1 w1 ?a rows0 st0 "[?b, ?c]"] assms(1,2) that
    obtain W where W: "create_constraints_loop E [?a, ?b, ?c] self w
                         = create_constraints_loop E [?b, ?c] self1 W"
      "store W = st0" "connect E self1 W = (Inr d, self1, W)"
      "history W = history w1 @ [(?a, [])]"
      by (auto simp del: create_constraints_loop.simps)
    from loop_statement_applied [of E self1 W d self1 W ?b rows1 st1 "[?c]"] W assms(3) that
    obtain W' where W': "create_constraints_loop E [?b, ?c] self1 W
                         = create_constraints_loop E [?c] self1 W'"
      "store W' = st1" "connect E self1 W' = (Inr d, self1, W')"
      "history W' = history W @ [(?b, [])]"
      by (auto simp del: create_constraints_loop.simps)
    from loop_statement_applied [of E self1 W' d self1 W' ?c rows2 st2 "[]"] W' assms(4) that
    obtain W'' where W'': "create_constraints_loop E [?c] self1 W'
                         = create_constraints_loop E [] self1 W''"
      "store W'' = st2" "history W'' = history W' @ [(?c, [])]"
      by (auto simp del: create_constraints_loop.simps)
    from W W' W'' show ?thesis unfolding cc by simp
  qed
  from A B C D F constraints_form show ?thesis
    by (cases c; cases r0; cases r1; cases r2) simp_all
qed

theorem create_constraints_issues_witness:
  "fst (create_constraints (answering_env []) connected_db connected_world) = Inr () \<and>
   history (snd (snd (create_constraints (answering_env []) connected_db connected_world)))
     = [(constraints ! 0, []), (constraints ! 1, []), (constraints ! 2, [])] \<and>
   fst (create_constraints (raising_on_env (constraints ! 0) (DriverError ''denied''))
          connected_db connected_world) = Inl (DriverError ''denied'') \<and>
   fst (create_constraints (raising_on_env (constraints ! 1) (DriverError ''denied''))
          connected_db connected_world) = Inl (DriverError ''denied'') \<and>
   fst (create_constraints (raising_on_env (constraints ! 2) (DriverError ''denied''))
          connected_db connected_world) = Inl (DriverError ''denied'') \<and>
   fst (create_constraints (raising_env (AuthError ''rejected'')) new_db new_world)
     = Inl (AuthError ''rejected'') \<and>
   store (snd (snd (create_constraints schema_env connected_db (connected_around []))))
     = [constraints ! 0, constraints ! 1, constraints ! 2] \<and>
   fst (create_constraints schema_env connected_db
          (connected_around [constraints ! 0, constraints ! 1, constraints ! 2])) = Inr () \<and>
   store (snd (snd (create_constraints schema_env connected_db
          (connected_around [constraints ! 0, constraints ! 1, constraints ! 2]))))
     = [constraints ! 0, constraints ! 1, constraints ! 2]"
proof -
  let ?a = "constraints ! 0" and ?b = "constraints ! 1" and ?c = "constraints ! 2"
  let ?e = "DriverError ''denied''"
  note cw = connected_connect [of _ connected_world]
  have st: "store connected_world = ()" by simp
  \<comment> \<open>every statement succeeds\<close>
  have ok: "run_query (answering_env []) (store connected_world) ?a [] = (Inr [], ())"
    "run_query (answering_env []) () ?b [] = (Inr [], ())"
    "run_query (answering_env []) () ?c [] = (Inr [], ())"
    by (simp_all add: example_envs)
  note 1 = create_constraints_issues [OF cw ok]
  \<comment> \<open>the first, the second, the third statement fails\<close>
  have f0: "run_query (raising_on_env ?a ?e) (store connected_world) ?a [] = (Inl ?e, ())"
    "run_query (raising_on_env ?a ?e) () ?b [] = (Inr [], ())"
    "run_query (raising_on_env ?a ?e) () ?c [] = (Inr [], ())"
    using constraints_distinct by (simp_all add: example_envs)
  note 2 = create_constraints_issues [OF cw f0]
  have f1: "run_query (raising_on_env ?b ?e) (store connected_world) ?a [] = (Inr [], ())"
    "run_query (raising_on_env ?b ?e) () ?b [] = (Inl ?e, ())"
    "run_query (raising_on_env ?b ?e) () ?c [] = (Inr [], ())"
    using constraints_distinct by (simp_all add: example_envs)
  note 3 = create_constraints_issues [OF cw f1]
  have f2: "run_query (raising_on_env ?c ?e) (store connected_world) ?a [] = (Inr [], ())"
    "run_query (raising_on_env ?c ?e) () ?b [] = (Inr [], ())"
    "run_query (raising_on_env ?c ?e) () ?c [] = (Inl ?e, ())"
    using constraints_distinct by (simp_all add: example_envs)
  note 4 = create_constraints_issues [OF cw f2]
  \<comment> \<open>the connection fails\<close>
  let ?A = "raising_env (AuthError ''rejected'')"
  let ?k = "connect ?A new_db new_world"
  have "fst ?k = Inl (AuthError ''rejected'')"
    by (simp add: connect_def connect_try_def connection_test_def GraphDatabase_driver_def
      driver_session_def session_run_def session_close_def
      example_envs example_dbs example_worlds new_world_def)
  then have k: "?k = (Inl (AuthError ''rejected''), fst (snd ?k), snd (snd ?k))"
    by (metis prod.collapse)
  have fa: "run_query ?A (store (snd (snd ?k))) ?a [] = (Inl (AuthError ''rejected''), ())"
    "run_query ?A () ?b [] = (Inl (AuthError ''rejected''), ())"
    "run_query ?A () ?c [] = (Inl (AuthError ''rejected''), ())"
    by (simp_all add: example_envs)
  note 5 = create_constraints_issues [OF k fa]
  \<comment> \<open>a store without the constraints, then the same store with them\<close>
  let ?all = "[?a, ?b, ?c]"
  have s0: "run_query schema_env (store (connected_around [])) ?a [] = (Inr [], [?a])"
    "run_query schema_env [?a] ?b [] = (Inr [], [?a, ?b])"
    "run_query schema_env [?a, ?b] ?c [] = (Inr [], ?all)"
    using constraints_distinct by (simp_all add: example_envs example_worlds)
  note 6 = create_constraints_issues [OF connected_connect s0]
  have s1: "run_query schema_env (store (connected_around ?all)) ?a [] = (Inr [], ?all)"
    "run_query schema_env ?all ?b [] = (Inr [], ?all)"
    "run_query schema_env ?all ?c [] = (Inr [], ?all)"
    by (simp_all add: example_envs example_worlds)
  note 7 = create_constraints_issues [OF connected_connect s1]
  have h: "history connected_world = []" by (simp add: connected_world_def example_worlds)
  from 1 have A: "fst (create_constraints (answering_env []) connected_db connected_world) = Inr ()"
    "history (snd (snd (create_constraints (answering_env []) connected_db connected_world)))
     = [(?a, []), (?b, []), (?c, [])]"
    by (simp_all add: h)
  from 2 have B: "fst (create_constraints (raising_on_env ?a ?e) connected_db connected_world) = Inl ?e"
    by simp
  from 3 have C: "fst (create_constraints (raising_on_env ?b ?e) connected_db connected_world) = Inl ?e"
    by simp
  from 4 have D: "fst (create_constraints (raising_on_env ?c ?e) connected_db connected_world) = Inl ?e"
    by simp
  from 5 have F: "fst (create_constraints ?A new_db new_world) = Inl (AuthError ''rejected'')"
    by simp
  from 6 have G: "store (snd (snd (create_constraints schema_env connected_db (connected_around []))))
     = ?all" by simp
  from 7 have H: "fst (create_constraints schema_env connected_db (connected_around ?all)) = Inr ()"
    "store (snd (snd (create_constraints schema_env connected_db (connected_around ?all)))) = ?all"
    by (simp_all add: example_worlds)
  from A B C D F G H show ?thesis by simp
qed

end
